theory Spec2Isabelle
  imports Complex_Main
begin

section \<open>JAX arrays\<close>

text \<open>
  The specs of \<^verbatim>\<open>jumanji/specs.py\<close> describe JAX arrays and compare them with
  \<^verbatim>\<open>jax.numpy\<close>. An array is its shape, its dtype and its elements in row-major
  order. An element is a number, an infinity or NaN: the comparisons \<^verbatim>\<open><\<close> and
  \<^verbatim>\<open>>\<close> of IEEE 754 are decided by this value alone (a comparison with NaN is false),
  a boolean is the number 0 or 1, as it is when NumPy compares or multiplies it.
\<close>

datatype dtype =
  Bool | Int8 | Int16 | Int32 | Int64 | UInt8 | UInt16 | UInt32 | UInt64
  | Float16 | Float32 | Float64

datatype val = Num real | PosInf | NegInf | NaN

fun val_lt :: "val \<Rightarrow> val \<Rightarrow> bool" where
  "val_lt NaN y = False"
| "val_lt x NaN = False"
| "val_lt (Num a) (Num b) = (a < b)"
| "val_lt PosInf y = False"
| "val_lt x PosInf = True"
| "val_lt x NegInf = False"
| "val_lt NegInf y = True"

definition val_gt :: "val \<Rightarrow> val \<Rightarrow> bool" where
  "val_gt x y = val_lt y x"

fun val_le :: "val \<Rightarrow> val \<Rightarrow> bool" where
  "val_le NaN y = False"
| "val_le x NaN = False"
| "val_le x y = (\<not> val_lt y x)"

fun val_mul :: "val \<Rightarrow> val \<Rightarrow> val" where
  "val_mul NaN y = NaN"
| "val_mul x NaN = NaN"
| "val_mul (Num a) (Num b) = Num (a * b)"
| "val_mul (Num a) PosInf = (if a = 0 then NaN else if 0 < a then PosInf else NegInf)"
| "val_mul (Num a) NegInf = (if a = 0 then NaN else if 0 < a then NegInf else PosInf)"
| "val_mul PosInf (Num b) = (if b = 0 then NaN else if 0 < b then PosInf else NegInf)"
| "val_mul NegInf (Num b) = (if b = 0 then NaN else if 0 < b then NegInf else PosInf)"
| "val_mul PosInf PosInf = PosInf"
| "val_mul NegInf NegInf = PosInf"
| "val_mul PosInf NegInf = NegInf"
| "val_mul NegInf PosInf = NegInf"

definition val_of_bool :: "bool \<Rightarrow> val" where
  "val_of_bool b = (if b then Num 1 else Num 0)"

definition truthy :: "val \<Rightarrow> bool" where
  "truthy x = (x \<noteq> Num 0)"

record ndarray =
  shape :: "nat list"
  dtype :: dtype
  data :: "val list"

text \<open>Every array holds as many elements as its shape says.\<close>

definition wf_array :: "ndarray \<Rightarrow> bool" where
  "wf_array a = (length (data a) = prod_list (shape a))"

subsection \<open>Errors\<close>

text \<open>
  A raised exception is a value. The text of a message is kept as what it is built
  from; \<^verbatim>\<open>_fail_validation\<close> adds the name of the spec when it has one.
\<close>

datatype message =
  Expected_shape "nat list" "nat list"
  | Expected_dtype dtype dtype
  | Not_within_bounds ndarray ndarray ndarray
  | Incompatible_shapes
  | Minimum_incompatible
  | Maximum_incompatible
  | Minimum_above_maximum ndarray ndarray
  | Num_values_not_positive int
  | Dtype_not_integral
  | Spec_not_available
  | Zero_size_reduction

datatype error =
  ValueError message "string option"
  | TypeError message
  | OverflowError

text \<open>An exception leaves the function that called the one that raised it.\<close>

definition and_then :: "error + 'a \<Rightarrow> ('a \<Rightarrow> error + 'b) \<Rightarrow> error + 'b" where
  "and_then r f = (case r of Inl e \<Rightarrow> Inl e | Inr x \<Rightarrow> f x)"

subsection \<open>The functions of \<^verbatim>\<open>jax.numpy\<close> the specs call\<close>

text \<open>\<^verbatim>\<open>jnp.asarray(value)\<close> returns a JAX array as it is.\<close>

definition jnp_asarray :: "ndarray \<Rightarrow> ndarray" where
  "jnp_asarray value = value"

definition jnp_zeros :: "nat list \<Rightarrow> dtype \<Rightarrow> ndarray" where
  "jnp_zeros sh dt = \<lparr>shape = sh, dtype = dt, data = replicate (prod_list sh) (Num 0)\<rparr>"

definition jnp_ones :: "nat list \<Rightarrow> dtype \<Rightarrow> ndarray" where
  "jnp_ones sh dt = \<lparr>shape = sh, dtype = dt, data = replicate (prod_list sh) (Num 1)\<rparr>"

text \<open>
  Broadcasting aligns shapes at their last dimension: the shorter shape is filled with
  leading ones, and a dimension of size one is repeated.
\<close>

definition pad_shape :: "nat \<Rightarrow> nat list \<Rightarrow> nat list" where
  "pad_shape n sh = replicate (n - length sh) 1 @ sh"

definition chunks :: "nat \<Rightarrow> nat \<Rightarrow> 'a list \<Rightarrow> 'a list list" where
  "chunks n k xs = map (\<lambda>i. take n (drop (i * n) xs)) [0..<k]"

fun broadcast_data :: "nat list \<Rightarrow> nat list \<Rightarrow> 'a list \<Rightarrow> 'a list" where
  "broadcast_data (d # ds) (e # es) xs =
     (if d = e then concat (map (broadcast_data ds es) (chunks (prod_list ds) d xs))
      else concat (replicate e (broadcast_data ds es xs)))"
| "broadcast_data ds es xs = xs"

definition broadcastable :: "nat list \<Rightarrow> nat list \<Rightarrow> bool" where
  "broadcastable src tgt =
     (length src \<le> length tgt \<and>
      list_all2 (\<lambda>d e. d = e \<or> d = 1) (pad_shape (length tgt) src) tgt)"

definition bcast :: "ndarray \<Rightarrow> nat list \<Rightarrow> val list" where
  "bcast a sh = broadcast_data (pad_shape (length sh) (shape a)) sh (data a)"

definition jnp_broadcast_to :: "ndarray \<Rightarrow> nat list \<Rightarrow> error + ndarray" where
  "jnp_broadcast_to a sh =
     (if broadcastable (shape a) sh
      then Inr \<lparr>shape = sh, dtype = dtype a, data = bcast a sh\<rparr>
      else Inl (ValueError Incompatible_shapes None))"


text \<open>
  A binary operation broadcasts both arguments to their common shape, or fails when the
  shapes have none.
\<close>

definition common_dim :: "nat \<Rightarrow> nat \<Rightarrow> nat option" where
  "common_dim d e =
     (if d = e then Some d else if d = 1 then Some e else if e = 1 then Some d else None)"

definition broadcast_shapes :: "nat list \<Rightarrow> nat list \<Rightarrow> nat list option" where
  "broadcast_shapes s t =
     (let n = max (length s) (length t)
      in those (map2 common_dim (pad_shape n s) (pad_shape n t)))"

definition binary_op ::
  "(val \<Rightarrow> val \<Rightarrow> val) \<Rightarrow> (dtype \<Rightarrow> dtype \<Rightarrow> dtype) \<Rightarrow> ndarray \<Rightarrow> ndarray \<Rightarrow> error + ndarray"
where
  "binary_op f result_dtype a b =
     (case broadcast_shapes (shape a) (shape b) of
        None \<Rightarrow> Inl (TypeError Incompatible_shapes)
      | Some sh \<Rightarrow>
          Inr \<lparr>shape = sh, dtype = result_dtype (dtype a) (dtype b),
               data = map2 f (bcast a sh) (bcast b sh)\<rparr>)"

definition jnp_less :: "ndarray \<Rightarrow> ndarray \<Rightarrow> error + ndarray" where
  "jnp_less a b = binary_op (\<lambda>x y. val_of_bool (val_lt x y)) (\<lambda>d e. Bool) a b"

definition jnp_greater :: "ndarray \<Rightarrow> ndarray \<Rightarrow> error + ndarray" where
  "jnp_greater a b = binary_op (\<lambda>x y. val_of_bool (val_gt x y)) (\<lambda>d e. Bool) a b"

definition jnp_any :: "ndarray \<Rightarrow> bool" where
  "jnp_any a = list_ex truthy (data a)"

text \<open>
  What JAX decides from its configuration and its promotion table is a parameter:
  the dtype an array gets when it is created with a requested dtype (a Python type or a
  dtype, \<^typ>\<open>'dl\<close>), the conversion of an element to a dtype, which raises when the
  element does not fit (OverflowError for a Python integer outside the range of the
  dtype), the dtype of the result of an operation on two different dtypes, and whether a
  requested dtype is integral.
\<close>

record 'dl jax =
  array_dtype :: "'dl \<Rightarrow> dtype"
  astype :: "dtype \<Rightarrow> val \<Rightarrow> error + val"
  promote_types :: "dtype \<Rightarrow> dtype \<Rightarrow> dtype"
  issubdtype_integer :: "'dl \<Rightarrow> bool"

definition jnp_multiply :: "'dl jax \<Rightarrow> ndarray \<Rightarrow> ndarray \<Rightarrow> error + ndarray" where
  "jnp_multiply J a b =
     binary_op val_mul (\<lambda>d e. if d = e then d else promote_types J d e) a b"

text \<open>
  A number or a sequence given for a bound: its dimensions and its elements.
  \<^verbatim>\<open>jnp.asarray(x, dtype)\<close> converts its elements, raising what the conversion of
  an element raises, and refuses a sequence that is not rectangular.
\<close>

record array_like =
  dims :: "nat list"
  elems :: "val list"

definition scalar :: "val \<Rightarrow> array_like" where
  "scalar x = \<lparr>dims = [], elems = [x]\<rparr>"

fun all_results :: "(error + 'a) list \<Rightarrow> error + 'a list" where
  "all_results [] = Inr []"
| "all_results (r # rs) =
     and_then r (\<lambda>x. and_then (all_results rs) (\<lambda>xs. Inr (x # xs)))"

definition jnp_asarray_dtype :: "'dl jax \<Rightarrow> array_like \<Rightarrow> 'dl \<Rightarrow> error + ndarray" where
  "jnp_asarray_dtype J x dl =
     (if length (elems x) = prod_list (dims x)
      then and_then (all_results (map (astype J (array_dtype J dl)) (elems x))) (\<lambda>converted.
           Inr \<lparr>shape = dims x, dtype = array_dtype J dl, data = converted\<rparr>)
      else Inl (ValueError Incompatible_shapes None))"

section \<open>Specs: \<^verbatim>\<open>jumanji/specs.py\<close>\<close>

record Array =
  spec_name :: string
  spec_shape :: "nat list"
  spec_dtype :: dtype

record BoundedArray = Array +
  minimum :: ndarray
  maximum :: ndarray

record DiscreteArray = BoundedArray +
  num_values :: int

text \<open>
  \<^verbatim>\<open>get_valid_dtype\<close> is defined in \<^verbatim>\<open>jumanji/types.py\<close>; the constructors take
  it as a parameter.
\<close>

definition Array_init :: "('dl \<Rightarrow> dtype) \<Rightarrow> nat list \<Rightarrow> 'dl \<Rightarrow> string \<Rightarrow> Array" where
  "Array_init get_valid_dtype sh dl nm =
     \<lparr>spec_name = nm, spec_shape = sh, spec_dtype = get_valid_dtype dl\<rparr>"

definition fail_validation :: "'m Array_scheme \<Rightarrow> message \<Rightarrow> error + 'a" where
  "fail_validation self msg =
     Inl (ValueError msg (if spec_name self \<noteq> [] then Some (spec_name self) else None))"

definition Array_validate :: "'m Array_scheme \<Rightarrow> ndarray \<Rightarrow> error + ndarray" where
  "Array_validate self v =
     (let value = jnp_asarray v
      in if shape value \<noteq> spec_shape self
         then fail_validation self (Expected_shape (spec_shape self) (shape value))
         else if dtype value \<noteq> spec_dtype self
         then fail_validation self (Expected_dtype (spec_dtype self) (dtype value))
         else Inr value)"

definition Array_generate_value :: "'m Array_scheme \<Rightarrow> ndarray" where
  "Array_generate_value self = jnp_zeros (spec_shape self) (spec_dtype self)"

definition except_ValueError :: "error + 'a \<Rightarrow> message \<Rightarrow> error + 'a" where
  "except_ValueError r msg =
     (case r of Inl (ValueError m n) \<Rightarrow> Inl (ValueError msg None) | _ \<Rightarrow> r)"

definition BoundedArray_init ::
  "'dl jax \<Rightarrow> ('dl \<Rightarrow> dtype) \<Rightarrow> nat list \<Rightarrow> 'dl \<Rightarrow> array_like \<Rightarrow> array_like \<Rightarrow> string
   \<Rightarrow> error + BoundedArray"
where
  "BoundedArray_init J get_valid_dtype sh dl minimum0 maximum0 nm =
     (let super = Array_init get_valid_dtype sh dl nm in
      and_then (jnp_asarray_dtype J minimum0 dl) (\<lambda>minimum1.
      and_then (jnp_asarray_dtype J maximum0 dl) (\<lambda>maximum1.
      and_then (except_ValueError (jnp_broadcast_to minimum1 sh) Minimum_incompatible)
        (\<lambda>bcast_minimum.
      and_then (except_ValueError (jnp_broadcast_to maximum1 sh) Maximum_incompatible)
        (\<lambda>bcast_maximum.
      and_then (jnp_greater bcast_minimum bcast_maximum) (\<lambda>gt.
      if jnp_any gt then Inl (ValueError (Minimum_above_maximum minimum1 maximum1) None)
      else Inr (Array.extend super (BoundedArray.fields minimum1 maximum1))))))))"

definition BoundedArray_validate :: "'m BoundedArray_scheme \<Rightarrow> ndarray \<Rightarrow> error + ndarray" where
  "BoundedArray_validate self v =
     and_then (Array_validate self v) (\<lambda>value.
     and_then (jnp_less value (minimum self)) (\<lambda>lt.
     if jnp_any lt
     then fail_validation self (Not_within_bounds (minimum self) value (maximum self))
     else
       and_then (jnp_greater value (maximum self)) (\<lambda>gt.
       if jnp_any gt
       then fail_validation self (Not_within_bounds (minimum self) value (maximum self))
       else Inr value)))"

definition BoundedArray_generate_value ::
  "'dl jax \<Rightarrow> 'm BoundedArray_scheme \<Rightarrow> error + ndarray" where
  "BoundedArray_generate_value J self =
     jnp_multiply J (jnp_ones (spec_shape self) (spec_dtype self)) (minimum self)"

definition DiscreteArray_init ::
  "'dl jax \<Rightarrow> ('dl \<Rightarrow> dtype) \<Rightarrow> int \<Rightarrow> 'dl \<Rightarrow> string \<Rightarrow> error + DiscreteArray" where
  "DiscreteArray_init J get_valid_dtype n dl nm =
     (if n \<le> 0 then Inl (ValueError (Num_values_not_positive n) None)
      else if \<not> issubdtype_integer J dl then Inl (ValueError Dtype_not_integral None)
      else
        let maximum0 = n - 1 in
        and_then
          (BoundedArray_init J get_valid_dtype [] dl (scalar (Num 0))
             (scalar (Num (of_int maximum0))) nm)
          (\<lambda>super. Inr (BoundedArray.extend super (DiscreteArray.fields n))))"

subsection \<open>Bounds\<close>

text \<open>
  What \<^verbatim>\<open>BoundedArray.validate\<close> checks of a value of the spec's shape: no element is
  less than the element of the minimum at its place, and none greater than that of the
  maximum, the bounds broadcast to the shape of the spec.
\<close>

definition within_bounds :: "'m BoundedArray_scheme \<Rightarrow> ndarray \<Rightarrow> bool" where
  "within_bounds self value =
     (list_all2 (\<lambda>x m. \<not> val_lt x m) (data value) (bcast (minimum self) (spec_shape self)) \<and>
      list_all2 (\<lambda>x M. \<not> val_gt x M) (data value) (bcast (maximum self) (spec_shape self)))"

text \<open>The bounds in the words \<^verbatim>\<open>minimum <= value <= maximum\<close>, element by element.\<close>

definition claimed_within_bounds :: "'m BoundedArray_scheme \<Rightarrow> ndarray \<Rightarrow> bool" where
  "claimed_within_bounds self value =
     (list_all2 val_le (bcast (minimum self) (spec_shape self)) (data value) \<and>
      list_all2 val_le (data value) (bcast (maximum self) (spec_shape self)))"

subsection \<open>An instance of the parameters\<close>

text \<open>
  For the examples: a requested dtype is a dtype and is the dtype of the array, the
  conversion to a signed integer dtype raises OverflowError for a number outside the
  range of the dtype and every other element is kept (the examples give elements of the
  dtype), two different dtypes promote to \<^const>\<open>Float64\<close>.
\<close>

definition int_range :: "dtype \<Rightarrow> (real \<times> real) option" where
  "int_range d =
     (if d = Int8 then Some (- 128, 127)
      else if d = Int16 then Some (- 32768, 32767)
      else if d = Int32 then Some (- 2147483648, 2147483647)
      else if d = Int64 then Some (- 9223372036854775808, 9223372036854775807)
      else None)"

definition astype_example :: "dtype \<Rightarrow> val \<Rightarrow> error + val" where
  "astype_example d x =
     (case (int_range d, x) of
        (Some (lo, hi), Num a) \<Rightarrow> if a < lo \<or> hi < a then Inl OverflowError else Inr x
      | _ \<Rightarrow> Inr x)"

definition jax_example :: "dtype jax" where
  "jax_example =
     \<lparr>array_dtype = (\<lambda>d. d), astype = astype_example, promote_types = (\<lambda>d e. Float64),
      issubdtype_integer =
        (\<lambda>d. d \<in> set [Int8, Int16, Int32, Int64, UInt8, UInt16, UInt32, UInt64])\<rparr>"

text \<open>\<^verbatim>\<open>BoundedArray((), jnp.float32, minimum=0.0, maximum=1.0)\<close>\<close>

definition unit_interval :: BoundedArray where
  "unit_interval =
     \<lparr>spec_name = [], spec_shape = [], spec_dtype = Float32,
      minimum = \<lparr>shape = [], dtype = Float32, data = [Num 0]\<rparr>,
      maximum = \<lparr>shape = [], dtype = Float32, data = [Num 1]\<rparr>\<rparr>"

subsection \<open>Objects of the Array classes\<close>

text \<open>
  A spec annotated \<^verbatim>\<open>specs.Array\<close> is an object of the class or of one of its
  subclasses; \<^verbatim>\<open>validate\<close> and \<^verbatim>\<open>generate_value\<close> are the methods of its class
  (\<^verbatim>\<open>DiscreteArray\<close> inherits those of \<^verbatim>\<open>BoundedArray\<close>).
\<close>

datatype Array_obj =
  IsArray Array
  | IsBoundedArray BoundedArray
  | IsDiscreteArray DiscreteArray

fun obj_name :: "Array_obj \<Rightarrow> string" where
  "obj_name (IsArray s) = spec_name s"
| "obj_name (IsBoundedArray s) = spec_name s"
| "obj_name (IsDiscreteArray s) = spec_name s"

fun validate :: "Array_obj \<Rightarrow> ndarray \<Rightarrow> error + ndarray" where
  "validate (IsArray s) v = Array_validate s v"
| "validate (IsBoundedArray s) v = BoundedArray_validate s v"
| "validate (IsDiscreteArray s) v = BoundedArray_validate s v"

fun generate_value :: "'dl jax \<Rightarrow> Array_obj \<Rightarrow> error + ndarray" where
  "generate_value J (IsArray s) = Inr (Array_generate_value s)"
| "generate_value J (IsBoundedArray s) = BoundedArray_generate_value J s"
| "generate_value J (IsDiscreteArray s) = BoundedArray_generate_value J s"

fun obj_shape :: "Array_obj \<Rightarrow> nat list" where
  "obj_shape (IsArray s) = spec_shape s"
| "obj_shape (IsBoundedArray s) = spec_shape s"
| "obj_shape (IsDiscreteArray s) = spec_shape s"

fun obj_dtype :: "Array_obj \<Rightarrow> dtype" where
  "obj_dtype (IsArray s) = spec_dtype s"
| "obj_dtype (IsBoundedArray s) = spec_dtype s"
| "obj_dtype (IsDiscreteArray s) = spec_dtype s"

text \<open>
  The elements that a generated value is to have: zeros for an \<^verbatim>\<open>Array\<close>, and for a
  \<^verbatim>\<open>BoundedArray\<close> the element of the minimum at each place of the shape.
\<close>

fun generated_elements :: "Array_obj \<Rightarrow> val list" where
  "generated_elements (IsArray s) = replicate (prod_list (spec_shape s)) (Num 0)"
| "generated_elements (IsBoundedArray s) = bcast (minimum s) (spec_shape s)"
| "generated_elements (IsDiscreteArray s) = bcast (minimum s) (spec_shape s)"

text \<open>The objects that the constructors return.\<close>

inductive constructed :: "'dl jax \<Rightarrow> ('dl \<Rightarrow> dtype) \<Rightarrow> Array_obj \<Rightarrow> bool"
  for J :: "'dl jax" and get_valid_dtype :: "'dl \<Rightarrow> dtype"
where
  Array: "constructed J get_valid_dtype (IsArray (Array_init get_valid_dtype sh dl nm))"
| BoundedArray:
    "BoundedArray_init J get_valid_dtype sh dl mn mx nm = Inr s
     \<Longrightarrow> constructed J get_valid_dtype (IsBoundedArray s)"
| DiscreteArray:
    "DiscreteArray_init J get_valid_dtype n dl nm = Inr s
     \<Longrightarrow> constructed J get_valid_dtype (IsDiscreteArray s)"

section \<open>The observation spec of Connect4: \<^verbatim>\<open>jumanji/connect4/specs.py\<close>\<close>

text \<open>
  \<^verbatim>\<open>Observation\<close> is declared in \<^verbatim>\<open>jumanji/connect4/types.py\<close>; the spec reads and
  builds its fields \<^verbatim>\<open>board\<close> and \<^verbatim>\<open>action_mask\<close>.
\<close>

record Observation =
  board :: ndarray
  action_mask :: ndarray

record ObservationSpec =
  obs_spec_name :: string
  board_obs :: Array_obj
  action_mask_spec :: Array_obj

definition ObservationSpec_init :: "Array_obj \<Rightarrow> Array_obj \<Rightarrow> ObservationSpec" where
  "ObservationSpec_init board_obs0 action_mask0 =
     (let nm = ''Observation('' @ [CHR 0x0A, CHR 0x09] @ ''board: '' @ obj_name board_obs0
               @ '','' @ [CHR 0x0A, CHR 0x09] @ ''action_mask: '' @ obj_name action_mask0
               @ '','' @ [CHR 0x0A] @ '')''
      in \<lparr>obs_spec_name = nm, board_obs = board_obs0, action_mask_spec = action_mask0\<rparr>)"

definition ObservationSpec_generate_value ::
  "'dl jax \<Rightarrow> ObservationSpec \<Rightarrow> error + Observation" where
  "ObservationSpec_generate_value J self =
     and_then (generate_value J (board_obs self)) (\<lambda>b.
     and_then (generate_value J (action_mask_spec self)) (\<lambda>m.
     Inr \<lparr>board = b, action_mask = m\<rparr>))"

definition ObservationSpec_validate :: "ObservationSpec \<Rightarrow> Observation \<Rightarrow> error + Observation" where
  "ObservationSpec_validate self value =
     and_then (validate (board_obs self) (board value)) (\<lambda>b.
     and_then (validate (action_mask_spec self) (action_mask value)) (\<lambda>m.
     Inr \<lparr>board = b, action_mask = m\<rparr>))"

text \<open>
  The observation spec of a Connect4 board of 6 rows and 7 columns: an \<^verbatim>\<open>Array\<close> for
  the board and a \<^verbatim>\<open>BoundedArray((7,), bool, False, True)\<close> for the action mask.
\<close>

definition action_mask_example :: BoundedArray where
  "action_mask_example =
     \<lparr>spec_name = ''action_mask'', spec_shape = [7], spec_dtype = Bool,
      minimum = \<lparr>shape = [], dtype = Bool, data = [Num 0]\<rparr>,
      maximum = \<lparr>shape = [], dtype = Bool, data = [Num 1]\<rparr>\<rparr>"

definition connect4_example :: ObservationSpec where
  "connect4_example =
     ObservationSpec_init (IsArray (Array_init (\<lambda>d. d) [6, 7] Int32 ''board''))
       (IsBoundedArray action_mask_example)"

section \<open>Conversion to \<^verbatim>\<open>dm_env\<close> specs\<close>

text \<open>
  A spec is an object of the Array classes or a nested spec. The classes of
  \<^verbatim>\<open>dm_env.specs\<close> are given by the arguments the conversion passes to them.
\<close>

datatype Spec =
  ArraySpec Array_obj
  | NestedSpec ObservationSpec

datatype dm_env_spec =
  dm_env_DiscreteArray int dtype "string option"
  | dm_env_BoundedArray "nat list" dtype ndarray ndarray "string option"
  | dm_env_Array "nat list" dtype "string option"

fun isinstance_DiscreteArray :: "Spec \<Rightarrow> bool" where
  "isinstance_DiscreteArray (ArraySpec (IsDiscreteArray s)) = True"
| "isinstance_DiscreteArray spec = False"

fun isinstance_BoundedArray :: "Spec \<Rightarrow> bool" where
  "isinstance_BoundedArray (ArraySpec (IsDiscreteArray s)) = True"
| "isinstance_BoundedArray (ArraySpec (IsBoundedArray s)) = True"
| "isinstance_BoundedArray spec = False"

fun isinstance_Array :: "Spec \<Rightarrow> bool" where
  "isinstance_Array (ArraySpec a) = True"
| "isinstance_Array spec = False"

definition name_or_None :: "string \<Rightarrow> string option" where
  "name_or_None nm = (if nm \<noteq> [] then Some nm else None)"

fun jumanji_specs_to_dm_env_specs :: "Spec \<Rightarrow> error + dm_env_spec" where
  "jumanji_specs_to_dm_env_specs (ArraySpec (IsDiscreteArray s)) =
     Inr (dm_env_DiscreteArray (num_values s) (spec_dtype s) (name_or_None (spec_name s)))"
| "jumanji_specs_to_dm_env_specs (ArraySpec (IsBoundedArray s)) =
     Inr (dm_env_BoundedArray (spec_shape s) (spec_dtype s) (minimum s) (maximum s)
            (name_or_None (spec_name s)))"
| "jumanji_specs_to_dm_env_specs (ArraySpec (IsArray s)) =
     Inr (dm_env_Array (spec_shape s) (spec_dtype s) (name_or_None (spec_name s)))"
| "jumanji_specs_to_dm_env_specs spec = Inl (ValueError Spec_not_available None)"

section \<open>Environments and wrappers: \<^verbatim>\<open>jumanji/wrappers.py\<close>\<close>

subsection \<open>Time steps\<close>

text \<open>
  Modelled from the spec: \<^verbatim>\<open>TimeStep\<close> and \<^verbatim>\<open>StepType\<close> are declared in
  \<^verbatim>\<open>jumanji/types.py\<close>, which is not among the sources. A time step has the fields the
  wrappers read and write: step_type, reward, discount, observation and extras, the
  extras being None when they are not given; \<^verbatim>\<open>last()\<close> holds of a time step whose
  step_type is LAST. The reward and the discount are arrays, one element for each agent
  in a multi-agent environment.
\<close>

datatype StepType = FIRST | MID | LAST

record ('o, 'x) TimeStep =
  step_type :: StepType
  reward :: ndarray
  discount :: ndarray
  observation :: 'o
  extras :: "'x option"

definition TimeStep_last :: "('o, 'x) TimeStep \<Rightarrow> bool" where
  "TimeStep_last timestep = (step_type timestep = LAST)"

text \<open>A state carries the random key that \<^verbatim>\<open>AutoResetWrapper\<close> reads as \<^verbatim>\<open>state.key\<close>.\<close>

record 'k State =
  key :: 'k

subsection \<open>Reductions of \<^verbatim>\<open>jax.numpy\<close>\<close>






text \<open>
  \<^verbatim>\<open>jax.lax.cond(pred, true_fun, false_fun, *operands)\<close> traces both branches, the
  true one first, before it selects a result by the predicate: what a branch raises is
  raised whatever the predicate is. The results of the two branches are of one type: they
  have the same structure, and their arrays the same shapes and dtypes, which
  \<^verbatim>\<open>jax.lax.cond\<close> requires of them.
\<close>

definition jax_lax_cond ::
  "bool \<Rightarrow> ('a \<Rightarrow> error + 'b) \<Rightarrow> ('a \<Rightarrow> error + 'b) \<Rightarrow> 'a \<Rightarrow> error + 'b" where
  "jax_lax_cond pred true_fun false_fun operands =
     and_then (true_fun operands) (\<lambda>t.
     and_then (false_fun operands) (\<lambda>f.
     Inr (if pred then t else f)))"

subsection \<open>The classes\<close>

text \<open>
  An environment is an object of a class that implements \<^verbatim>\<open>reset\<close>, \<^verbatim>\<open>step\<close>,
  \<^verbatim>\<open>observation_spec\<close> and \<^verbatim>\<open>action_spec\<close> (\<^verbatim>\<open>Env\<close>, with these four), or a
  wrapper around an environment. A call of a method is the method of the object's class:
  \<^verbatim>\<open>MultiToSingleWrapper\<close> and \<^verbatim>\<open>AutoResetWrapper\<close> inherit from \<^verbatim>\<open>Wrapper\<close> what
  they do not define.
\<close>

datatype ('k, 'm, 'a, 'o, 'x) Environment =
  Env "'k \<Rightarrow> error + ('k, 'm) State_scheme \<times> ('o, 'x) TimeStep"
      "('k, 'm) State_scheme \<Rightarrow> 'a \<Rightarrow> error + ('k, 'm) State_scheme \<times> ('o, 'x) TimeStep"
      Spec Spec
  | Wrapper "('k, 'm, 'a, 'o, 'x) Environment"
  | MultiToSingleWrapper "('k, 'm, 'a, 'o, 'x) Environment"
      "ndarray \<Rightarrow> error + ndarray" "ndarray \<Rightarrow> error + ndarray"
  | AutoResetWrapper "('k, 'm, 'a, 'o, 'x) Environment"


text \<open>
  Modelled from the spec: the base class \<^verbatim>\<open>Environment\<close> is declared in
  \<^verbatim>\<open>jumanji/env.py\<close>, which is not among the sources; its property \<^verbatim>\<open>unwrapped\<close>
  is the environment itself, the innermost one. \<^verbatim>\<open>Wrapper.unwrapped\<close> is that of the
  wrapped environment.
\<close>

fun unwrapped :: "('k, 'm, 'a, 'o, 'x) Environment \<Rightarrow> ('k, 'm, 'a, 'o, 'x) Environment" where
  "unwrapped (Env r s os as) = Env r s os as"
| "unwrapped (Wrapper env) = unwrapped env"
| "unwrapped (MultiToSingleWrapper env ra da) = unwrapped env"
| "unwrapped (AutoResetWrapper env) = unwrapped env"

fun observation_spec :: "('k, 'm, 'a, 'o, 'x) Environment \<Rightarrow> Spec" where
  "observation_spec (Env r s os as) = os"
| "observation_spec (Wrapper env) = observation_spec env"
| "observation_spec (MultiToSingleWrapper env ra da) = observation_spec env"
| "observation_spec (AutoResetWrapper env) = observation_spec env"

fun action_spec :: "('k, 'm, 'a, 'o, 'x) Environment \<Rightarrow> Spec" where
  "action_spec (Env r s os as) = as"
| "action_spec (Wrapper env) = action_spec env"
| "action_spec (MultiToSingleWrapper env ra da) = action_spec env"
| "action_spec (AutoResetWrapper env) = action_spec env"

text \<open>
  \<^verbatim>\<open>MultiToSingleWrapper._aggregate_timestep\<close> builds a new time step from four
  fields; its extras are the default, None.
\<close>

definition aggregate_timestep ::
  "(ndarray \<Rightarrow> error + ndarray) \<Rightarrow> (ndarray \<Rightarrow> error + ndarray) \<Rightarrow> ('o, 'x) TimeStep
   \<Rightarrow> error + ('o, 'x) TimeStep" where
  "aggregate_timestep reward_aggregator discount_aggregator timestep =
     and_then (reward_aggregator (reward timestep)) (\<lambda>r.
     and_then (discount_aggregator (discount timestep)) (\<lambda>d.
     Inr \<lparr>step_type = step_type timestep, reward = r, discount = d,
          observation = observation timestep, extras = None\<rparr>))"

fun reset ::
  "('k, 'm, 'a, 'o, 'x) Environment \<Rightarrow> 'k \<Rightarrow> error + ('k, 'm) State_scheme \<times> ('o, 'x) TimeStep"
where
  "reset (Env r s os as) k = r k"
| "reset (Wrapper env) k = reset env k"
| "reset (MultiToSingleWrapper env ra da) k =
     and_then (reset env k) (\<lambda>(state, timestep).
     and_then (aggregate_timestep ra da timestep) (\<lambda>timestep.
     Inr (state, timestep)))"
| "reset (AutoResetWrapper env) k = reset env k"

text \<open>
  \<^verbatim>\<open>AutoResetWrapper.auto_reset\<close> resets the wrapped environment with the key of the
  state and replaces the observation and the step_type of the time step.
\<close>

definition auto_reset ::
  "('k, 'm, 'a, 'o, 'x) Environment \<Rightarrow> ('k, 'm) State_scheme \<times> ('o, 'x) TimeStep
   \<Rightarrow> error + ('k, 'm) State_scheme \<times> ('o, 'x) TimeStep" where
  "auto_reset env = (\<lambda>(state, timestep).
     and_then (reset env (key state)) (\<lambda>(state, reset_timestep).
     Inr (state, timestep\<lparr>observation := observation reset_timestep,
                          step_type := step_type reset_timestep\<rparr>)))"

fun step ::
  "('k, 'm, 'a, 'o, 'x) Environment \<Rightarrow> ('k, 'm) State_scheme \<Rightarrow> 'a
   \<Rightarrow> error + ('k, 'm) State_scheme \<times> ('o, 'x) TimeStep"
where
  "step (Env r s os as) state action = s state action"
| "step (Wrapper env) state action = step env state action"
| "step (MultiToSingleWrapper env ra da) state action =
     and_then (step env state action) (\<lambda>(state, timestep).
     and_then (aggregate_timestep ra da timestep) (\<lambda>timestep.
     Inr (state, timestep)))"
| "step (AutoResetWrapper env) state action =
     and_then (step env state action) (\<lambda>(state, timestep).
     jax_lax_cond (TimeStep_last timestep) (auto_reset env) Inr (state, timestep))"

subsection \<open>The nesting of wrappers\<close>

text \<open>
  The environments from an environment inwards, each the \<^verbatim>\<open>_env\<close> of the one before
  it; the last one is the innermost.
\<close>

fun nesting :: "('k, 'm, 'a, 'o, 'x) Environment \<Rightarrow> ('k, 'm, 'a, 'o, 'x) Environment list" where
  "nesting (Env r s os as) = [Env r s os as]"
| "nesting (Wrapper env) = Wrapper env # nesting env"
| "nesting (MultiToSingleWrapper env ra da) = MultiToSingleWrapper env ra da # nesting env"
| "nesting (AutoResetWrapper env) = AutoResetWrapper env # nesting env"


subsection \<open>An environment of two agents\<close>







section \<open>The Connector environment: \<^verbatim>\<open>jumanji/environments/routing/connector/env.py\<close>\<close>

text \<open>
  The environment imports its types from \<^verbatim>\<open>connector/types.py\<close>, and
  \<^verbatim>\<open>move\<close>, \<^verbatim>\<open>is_valid_position\<close> and \<^verbatim>\<open>switch_perspective\<close> from
  \<^verbatim>\<open>connector/utils.py\<close>, \<^verbatim>\<open>restart\<close> from \<^verbatim>\<open>jumanji/types.py\<close> and the
  generator from \<^verbatim>\<open>connector/generator.py\<close>; none of them is among the sources. The
  records have the fields that the environment reads and writes, and the functions are
  parameters, with \<^verbatim>\<open>jax.random.split\<close>. A position and a grid are arrays; a stack
  of arrays along the first axis, over which \<^verbatim>\<open>jax.vmap\<close> maps, is the list of them.
\<close>

record 'p Agent =
  position :: 'p

record ('k, 'ag) ConnectorState = "'k State" +
  grid :: ndarray
  state_step :: ndarray
  agents :: "'ag list"

record ConnectorObservation =
  obs_grid :: "ndarray list"
  obs_action_mask :: "ndarray list"
  obs_step :: ndarray

record ('k, 'p, 'ag) helpers =
  random_split :: "'k \<Rightarrow> 'k \<times> 'k"
  move :: "'p \<Rightarrow> nat \<Rightarrow> 'p"
  is_valid_position :: "ndarray \<Rightarrow> 'ag \<Rightarrow> 'p \<Rightarrow> bool"
  switch_perspective :: "ndarray \<Rightarrow> nat \<Rightarrow> nat \<Rightarrow> ndarray"
  restart :: "ConnectorObservation \<Rightarrow> nat list \<Rightarrow> (ConnectorObservation, unit) TimeStep"

record ('k, 'ag) Connector =
  size :: nat
  num_agents :: nat
  horizon :: nat
  agent_ids :: "nat list"
  generator :: "'k \<Rightarrow> ('k, 'ag) ConnectorState"

definition jnp_arange :: "nat \<Rightarrow> nat \<Rightarrow> nat list" where
  "jnp_arange start stop = [start..<stop]"

definition jax_vmap :: "('a \<Rightarrow> 'b) \<Rightarrow> 'a list \<Rightarrow> 'b list" where
  "jax_vmap f xs = map f xs"

text \<open>
  \<^verbatim>\<open>a.at[indices].set(values)\<close> on an array of one dimension; an index beyond the end
  changes nothing.
\<close>

definition at_set :: "ndarray \<Rightarrow> nat list \<Rightarrow> val list \<Rightarrow> ndarray" where
  "at_set a indices values =
     a\<lparr>data := fold (\<lambda>(i, v) d. d[i := v]) (zip indices values) (data a)\<rparr>"

definition Connector_init ::
  "nat \<Rightarrow> nat \<Rightarrow> nat \<Rightarrow> (nat \<Rightarrow> nat \<Rightarrow> 'k \<Rightarrow> ('k, 'ag) ConnectorState) \<Rightarrow> ('k, 'ag) Connector" where
  "Connector_init size0 num_agents0 horizon0 generator0 =
     \<lparr>size = size0, num_agents = num_agents0, horizon = horizon0,
      agent_ids = jnp_arange 0 num_agents0, generator = generator0 size0 num_agents0\<rparr>"

definition get_action_mask ::
  "('k, 'p, ('p, 'z) Agent_scheme) helpers \<Rightarrow> ('p, 'z) Agent_scheme \<Rightarrow> ndarray \<Rightarrow> ndarray" where
  "get_action_mask U agent grid0 =
     (let actions = jnp_arange 1 5;
          is_valid_action = (\<lambda>action.
            let agent_pos = move U (position agent) action
            in is_valid_position U grid0 agent agent_pos);
          mask = jnp_ones [5] Bool;
          mask = at_set mask actions (map val_of_bool (jax_vmap is_valid_action actions))
      in mask)"

definition obs_from_grid :: "('k, 'p, 'ag) helpers \<Rightarrow> ('k, 'ag) Connector \<Rightarrow> ndarray \<Rightarrow> ndarray list" where
  "obs_from_grid U self grid0 =
     jax_vmap (\<lambda>agent_id. switch_perspective U grid0 agent_id (num_agents self)) (agent_ids self)"

definition Connector_reset ::
  "('k, 'p, ('p, 'z) Agent_scheme) helpers \<Rightarrow> ('k, ('p, 'z) Agent_scheme) Connector \<Rightarrow> 'k
   \<Rightarrow> ('k, ('p, 'z) Agent_scheme) ConnectorState \<times> (ConnectorObservation, unit) TimeStep" where
  "Connector_reset U self key0 =
     (let (generator_key, key1) = random_split U key0;
          state = generator self generator_key;
          action_mask0 = jax_vmap (\<lambda>agent. get_action_mask U agent (grid state)) (agents state);
          observation0 = \<lparr>obs_grid = obs_from_grid U self (grid state),
                           obs_action_mask = action_mask0, obs_step = state_step state\<rparr>;
          timestep = restart U observation0 [num_agents self]
      in (\<lparr>key = key1, grid = grid state,
           state_step = \<lparr>shape = [], dtype = Int32, data = [Num 0]\<rparr>,
           agents = agents state\<rparr>,
          timestep))"

text \<open>
  The body of \<^verbatim>\<open>Connector.step\<close> is \<^verbatim>\<open>pass\<close>: a call returns \<^verbatim>\<open>None\<close>, which
  is neither a state nor a time step.
\<close>

definition Connector_step ::
  "('k, 'ag) Connector \<Rightarrow> ('k, 'ag) ConnectorState \<Rightarrow> ndarray
   \<Rightarrow> (('k, 'ag) ConnectorState \<times> (ConnectorObservation, unit) TimeStep) option" where
  "Connector_step self state action = None"

section \<open>Properties\<close>

subsection \<open>Broadcasting\<close>

lemma val_lt_irrefl: "\<not> val_lt x x"
  by (cases x) simp_all

lemma val_mul_one: "val_mul (Num 1) x = x"
  by (cases x) simp_all

lemma concat_chunks_take: "concat (chunks n k xs) = take (k * n) xs"
proof (induction k)
  case 0
  show ?case by (simp add: chunks_def)
next
  case (Suc k)
  have "concat (chunks n (Suc k) xs) = concat (chunks n k xs) @ take n (drop (k * n) xs)"
    by (simp add: chunks_def)
  also have "\<dots> = take (k * n) xs @ take n (drop (k * n) xs)"
    using Suc.IH by simp
  also have "\<dots> = take (k * n + n) xs"
    by (simp add: take_add)
  finally show ?case by (simp add: add.commute)
qed

lemma concat_chunks: "length xs = k * n \<Longrightarrow> concat (chunks n k xs) = xs"
  by (simp add: concat_chunks_take)

lemma length_chunk:
  assumes "c \<in> set (chunks n k xs)" and "length xs = k * n"
  shows "length c = n"
proof -
  from assms(1) obtain i where i: "i < k" and c: "c = take n (drop (i * n) xs)"
    by (auto simp: chunks_def)
  from i have "n \<le> (k - i) * n" by (cases "k - i") auto
  then have "n \<le> k * n - i * n" by (simp add: diff_mult_distrib)
  with c assms(2) show ?thesis by simp
qed

lemma length_chunks: "length (chunks n k xs) = k"
  by (simp add: chunks_def)

lemma broadcast_data_same:
  "length xs = prod_list s \<Longrightarrow> broadcast_data s s xs = xs"
proof (induction s arbitrary: xs)
  case Nil
  show ?case by simp
next
  case (Cons d ds)
  have len: "length xs = d * prod_list ds" using Cons.prems by simp
  have "map (broadcast_data ds ds) (chunks (prod_list ds) d xs) = chunks (prod_list ds) d xs"
  proof (rule map_idI)
    fix c assume "c \<in> set (chunks (prod_list ds) d xs)"
    then have "length c = prod_list ds" using len by (rule length_chunk)
    then show "broadcast_data ds ds c = c" by (rule Cons.IH)
  qed
  then show ?case using len by (simp add: concat_chunks)
qed

lemma length_broadcast_data:
  "list_all2 (\<lambda>d e. d = e \<or> d = 1) s t \<Longrightarrow> length xs = prod_list s
   \<Longrightarrow> length (broadcast_data s t xs) = prod_list t"
proof (induction s t arbitrary: xs rule: list_all2_induct)
  case Nil
  then show ?case by simp
next
  case (Cons d ds e es)
  show ?case
  proof (cases "d = e")
    case True
    have len: "length xs = d * prod_list ds" using Cons.prems by simp
    have "map length (map (broadcast_data ds es) (chunks (prod_list ds) d xs))
          = replicate d (prod_list es)"
    proof (rule replicate_eqI)
      show "length (map length (map (broadcast_data ds es) (chunks (prod_list ds) d xs))) = d"
        by (simp add: length_chunks)
    next
      fix y assume "y \<in> set (map length (map (broadcast_data ds es) (chunks (prod_list ds) d xs)))"
      then obtain c where c: "c \<in> set (chunks (prod_list ds) d xs)"
        and y: "y = length (broadcast_data ds es c)" by auto
      from c len have "length c = prod_list ds" by (rule length_chunk)
      then show "y = prod_list es" using y Cons.IH by simp
    qed
    then show ?thesis using True by (simp add: length_concat sum_list_replicate)
  next
    case False
    with Cons.hyps have d: "d = 1" by simp
    then have "length xs = prod_list ds" using Cons.prems by simp
    then have "length (broadcast_data ds es xs) = prod_list es" by (rule Cons.IH)
    then show ?thesis using False by (simp add: length_concat sum_list_replicate)
  qed
qed


lemma those_common_dim:
  "list_all2 (\<lambda>d e. d = e \<or> d = 1) s t \<Longrightarrow> those (map2 common_dim t s) = Some t"
  by (induction s t rule: list_all2_induct) (auto simp: common_dim_def)

lemma pad_shape_same: "pad_shape (length sh) sh = sh"
  by (simp add: pad_shape_def)

lemma broadcast_shapes_broadcastable:
  "broadcastable src tgt \<Longrightarrow> broadcast_shapes tgt src = Some tgt"
  by (simp add: broadcastable_def broadcast_shapes_def max_absorb1 pad_shape_same
      those_common_dim)

lemma broadcastable_refl: "broadcastable sh sh"
  by (simp add: broadcastable_def pad_shape_same list_all2_same)

lemma bcast_same: "wf_array a \<Longrightarrow> bcast a (shape a) = data a"
  by (simp add: bcast_def pad_shape_same wf_array_def broadcast_data_same)

lemma length_bcast:
  "broadcastable (shape a) sh \<Longrightarrow> wf_array a \<Longrightarrow> length (bcast a sh) = prod_list sh"
  unfolding bcast_def broadcastable_def wf_array_def
  by (rule length_broadcast_data) (simp_all add: pad_shape_def)

lemma binary_op_bcast:
  assumes "broadcastable (shape b) (shape a)" and "wf_array a"
  shows "binary_op f r a b =
    Inr \<lparr>shape = shape a, dtype = r (dtype a) (dtype b),
         data = map2 f (data a) (bcast b (shape a))\<rparr>"
  using assms by (simp add: binary_op_def broadcast_shapes_broadcastable bcast_same)

lemma list_ex_map_bool:
  "list_ex truthy (map (\<lambda>(x, y). val_of_bool (P x y)) zs) = (\<exists>(x, y) \<in> set zs. P x y)"
  by (induction zs) (auto simp: val_of_bool_def truthy_def)

lemma list_ex_map2_bool:
  "list_ex truthy (map2 (\<lambda>x y. val_of_bool (P x y)) xs ys) = (\<exists>(x, y) \<in> set (zip xs ys). P x y)"
  by (rule list_ex_map_bool)

lemma not_any_iff_list_all2:
  "length xs = length ys \<Longrightarrow>
   (\<not> list_ex truthy (map2 (\<lambda>x y. val_of_bool (P x y)) xs ys)) = list_all2 (\<lambda>x y. \<not> P x y) xs ys"
  by (auto simp: list_ex_map2_bool list_all2_iff)

lemma and_then_Inr: "(and_then r f = Inr y) = (\<exists>x. r = Inr x \<and> f x = Inr y)"
  by (cases r) (simp_all add: and_then_def)

lemma except_ValueError_Inr: "(except_ValueError r m = Inr y) = (r = Inr y)"
  by (auto simp: except_ValueError_def split: sum.splits error.splits)

lemma all_results_Inr_length: "all_results rs = Inr xs \<Longrightarrow> length xs = length rs"
  by (induction rs arbitrary: xs) (auto simp: and_then_Inr)

lemma jnp_asarray_dtype_Inr:
  "jnp_asarray_dtype J x dl = Inr a \<Longrightarrow>
   wf_array a \<and> shape a = dims x \<and> dtype a = array_dtype J dl"
  by (auto simp: jnp_asarray_dtype_def wf_array_def and_then_Inr
      dest!: all_results_Inr_length split: if_splits)

lemma jnp_broadcast_to_Inr:
  "(jnp_broadcast_to a sh = Inr b) =
   (broadcastable (shape a) sh \<and> b = \<lparr>shape = sh, dtype = dtype a, data = bcast a sh\<rparr>)"
  by (auto simp: jnp_broadcast_to_def)

lemma BoundedArray_init_Inr:
  assumes "BoundedArray_init J g sh dl mn mx nm = Inr s"
  shows "spec_name s = nm \<and> spec_shape s = sh \<and> spec_dtype s = g dl
    \<and> jnp_asarray_dtype J mn dl = Inr (minimum s) \<and> jnp_asarray_dtype J mx dl = Inr (maximum s)
    \<and> broadcastable (shape (minimum s)) sh \<and> broadcastable (shape (maximum s)) sh
    \<and> list_all2 (\<lambda>m M. \<not> val_gt m M) (bcast (minimum s) sh) (bcast (maximum s) sh)"
proof -
  from assms obtain a b ba bb gt where
    a: "jnp_asarray_dtype J mn dl = Inr a" and b: "jnp_asarray_dtype J mx dl = Inr b"
    and ba: "jnp_broadcast_to a sh = Inr ba" and bb: "jnp_broadcast_to b sh = Inr bb"
    and gt: "jnp_greater ba bb = Inr gt" and ok: "\<not> jnp_any gt"
    and s: "s = Array.extend (Array_init g sh dl nm) (BoundedArray.fields a b)"
    by (auto simp: BoundedArray_init_def Let_def and_then_Inr except_ValueError_Inr
        split: if_splits)
  have fields: "spec_name s = nm" "spec_shape s = sh" "spec_dtype s = g dl"
    "minimum s = a" "maximum s = b"
    by (simp_all add: s Array_init_def Array.defs BoundedArray.defs)
  from a b have wf: "wf_array a" "wf_array b" by (auto dest: jnp_asarray_dtype_Inr)
  from ba bb have bc: "broadcastable (shape a) sh" "broadcastable (shape b) sh"
    and ba': "ba = \<lparr>shape = sh, dtype = dtype a, data = bcast a sh\<rparr>"
    and bb': "bb = \<lparr>shape = sh, dtype = dtype b, data = bcast b sh\<rparr>"
    by (simp_all add: jnp_broadcast_to_Inr)
  have len: "length (bcast a sh) = prod_list sh" "length (bcast b sh) = prod_list sh"
    using bc wf by (simp_all add: length_bcast)
  have wfba: "wf_array ba" "shape ba = sh" "shape bb = sh" "wf_array bb"
    by (simp_all add: ba' bb' wf_array_def len)
  have "jnp_greater ba bb = Inr \<lparr>shape = shape ba, dtype = Bool,
      data = map2 (\<lambda>x y. val_of_bool (val_gt x y)) (data ba) (bcast bb (shape ba))\<rparr>"
    unfolding jnp_greater_def
    by (rule binary_op_bcast) (simp_all add: wfba broadcastable_refl)
  moreover have "bcast bb (shape ba) = data bb"
    using bcast_same [OF wfba(4)] by (simp add: wfba)
  ultimately have "data gt = map2 (\<lambda>x y. val_of_bool (val_gt x y)) (bcast a sh) (bcast b sh)"
    using gt by (auto simp: ba' bb')
  with ok have "list_all2 (\<lambda>m M. \<not> val_gt m M) (bcast a sh) (bcast b sh)"
    by (simp add: jnp_any_def not_any_iff_list_all2 len)
  with fields a b bc show ?thesis by simp
qed

subsection \<open>Validation of arrays\<close>

text \<open>
  C1. \<^verbatim>\<open>Array.validate\<close> (the same in \<^verbatim>\<open>jumanji/specs.py\<close> and
  \<^verbatim>\<open>jumanji/jax/specs.py\<close>) returns the value, converted to a JAX array, exactly when
  the shape and the dtype of the converted value are those of the spec, and raises
  ValueError exactly when one of them differs: no value that does not conform is
  returned. The conversion keeps the elements.
\<close>

theorem Array_validate_conforming:
  "((Array_validate self v = Inr (jnp_asarray v)) =
      (shape (jnp_asarray v) = spec_shape self \<and> dtype (jnp_asarray v) = spec_dtype self))
   \<and> ((\<exists>m n. Array_validate self v = Inl (ValueError m n)) =
      (\<not> (shape (jnp_asarray v) = spec_shape self \<and> dtype (jnp_asarray v) = spec_dtype self)))
   \<and> (\<forall>r. (Array_validate self v = Inr r) =
        (r = jnp_asarray v \<and> shape r = spec_shape self \<and> dtype r = spec_dtype self))
   \<and> data (jnp_asarray v) = data v"
proof -
  have accepted: "(Array_validate self v = Inr (jnp_asarray v)) =
      (shape (jnp_asarray v) = spec_shape self \<and> dtype (jnp_asarray v) = spec_dtype self)"
    by (simp add: Array_validate_def fail_validation_def Let_def)
  have refused: "(\<exists>m n. Array_validate self v = Inl (ValueError m n)) =
      (\<not> (shape (jnp_asarray v) = spec_shape self \<and> dtype (jnp_asarray v) = spec_dtype self))"
    by (auto simp: Array_validate_def fail_validation_def Let_def)
  have result: "\<forall>r. (Array_validate self v = Inr r) =
      (r = jnp_asarray v \<and> shape r = spec_shape self \<and> dtype r = spec_dtype self)"
    by (auto simp: Array_validate_def fail_validation_def Let_def)
  have content: "data (jnp_asarray v) = data v"
    by (simp add: jnp_asarray_def)
  from accepted refused result content show ?thesis by blast
qed

subsection \<open>Validation of bounded arrays\<close>

lemma val_le_iff: "x \<noteq> NaN \<Longrightarrow> y \<noteq> NaN \<Longrightarrow> val_le x y = (\<not> val_lt y x)"
  by (cases x; cases y) simp_all

lemma Array_validate_Inr:
  "(Array_validate self v = Inr r) = (r = v \<and> shape v = spec_shape self \<and> dtype v = spec_dtype self)"
  by (auto simp: Array_validate_def fail_validation_def jnp_asarray_def Let_def)

lemma BoundedArray_validate_consistent:
  fixes self :: "'m BoundedArray_scheme"
  assumes wfm: "wf_array (minimum self)" "wf_array (maximum self)"
    and bcm: "broadcastable (shape (minimum self)) (spec_shape self)"
      "broadcastable (shape (maximum self)) (spec_shape self)"
    and wf: "wf_array v" and shape: "shape v = spec_shape self"
    and dt: "dtype v = spec_dtype self"
  shows "BoundedArray_validate self v =
    (if within_bounds self v then Inr v
     else fail_validation self (Not_within_bounds (minimum self) v (maximum self)))"
proof -
  from bcm have bc: "broadcastable (shape (minimum self)) (shape v)"
    "broadcastable (shape (maximum self)) (shape v)" by (simp_all add: shape)
  have lt: "jnp_less v (minimum self) = Inr \<lparr>shape = shape v, dtype = Bool,
      data = map2 (\<lambda>x y. val_of_bool (val_lt x y)) (data v) (bcast (minimum self) (shape v))\<rparr>"
    unfolding jnp_less_def using bc(1) wf by (rule binary_op_bcast)
  have gt: "jnp_greater v (maximum self) = Inr \<lparr>shape = shape v, dtype = Bool,
      data = map2 (\<lambda>x y. val_of_bool (val_gt x y)) (data v) (bcast (maximum self) (shape v))\<rparr>"
    unfolding jnp_greater_def using bc(2) wf by (rule binary_op_bcast)
  have len: "length (data v) = length (bcast (minimum self) (spec_shape self))"
    "length (data v) = length (bcast (maximum self) (spec_shape self))"
    using wf wfm bcm by (simp_all add: length_bcast shape wf_array_def)
  have "Array_validate self v = Inr v"
    by (simp add: Array_validate_Inr shape dt)
  then show ?thesis using len
    by (simp add: BoundedArray_validate_def and_then_def lt gt jnp_any_def shape
        not_any_iff_list_all2 [symmetric] within_bounds_def)
qed

lemma BoundedArray_validate_constructed:
  assumes init: "BoundedArray_init J g sh dl mn mx nm = Inr self"
    and wf: "wf_array v" and shape: "shape v = sh"
  shows "BoundedArray_validate self v =
    (if dtype v \<noteq> spec_dtype self
     then fail_validation self (Expected_dtype (spec_dtype self) (dtype v))
     else if within_bounds self v then Inr v
     else fail_validation self (Not_within_bounds (minimum self) v (maximum self)))"
proof (cases "dtype v = spec_dtype self")
  case False
  from BoundedArray_init_Inr [OF init] have "shape v = spec_shape self"
    by (simp add: shape)
  with False show ?thesis
    by (simp add: BoundedArray_validate_def Array_validate_def jnp_asarray_def and_then_def
        fail_validation_def Let_def)
next
  case True
  note facts = BoundedArray_init_Inr [OF init]
  from facts have wfm: "wf_array (minimum self)" "wf_array (maximum self)"
    by (auto dest: jnp_asarray_dtype_Inr)
  from facts have bcm: "broadcastable (shape (minimum self)) (spec_shape self)"
    "broadcastable (shape (maximum self)) (spec_shape self)"
    and sh: "shape v = spec_shape self"
    by (simp_all add: shape)
  from BoundedArray_validate_consistent [OF wfm bcm wf sh True] True
  show ?thesis by simp
qed

lemma BoundedArray_validate_wrong_shape:
  "shape v \<noteq> spec_shape self \<Longrightarrow>
   BoundedArray_validate self v =
     fail_validation self (Expected_shape (spec_shape self) (shape v))"
  by (simp add: BoundedArray_validate_def Array_validate_def jnp_asarray_def and_then_def
      fail_validation_def)

lemma within_bounds_claimed:
  assumes "NaN \<notin> set (data v)"
    and "NaN \<notin> set (bcast (minimum self) (spec_shape self))"
    and "NaN \<notin> set (bcast (maximum self) (spec_shape self))"
  shows "within_bounds self v = claimed_within_bounds self v"
proof -
  have "list_all2 (\<lambda>x m. \<not> val_lt x m) xs ms = list_all2 val_le ms xs"
    if "NaN \<notin> set xs" "NaN \<notin> set ms" for xs ms
    using that
    by (auto simp: list_all2_conv_all_nth val_le_iff in_set_conv_nth)
  moreover have "list_all2 (\<lambda>x M. \<not> val_gt x M) xs Ms = list_all2 val_le xs Ms"
    if "NaN \<notin> set xs" "NaN \<notin> set Ms" for xs Ms
    using that
    by (auto simp: list_all2_conv_all_nth val_le_iff val_gt_def in_set_conv_nth)
  ultimately show ?thesis using assms
    by (simp add: within_bounds_def claimed_within_bounds_def)
qed

lemma BoundedArray_init_above:
  assumes a: "jnp_asarray_dtype J mn dl = Inr a" and b: "jnp_asarray_dtype J mx dl = Inr b"
    and ba: "jnp_broadcast_to a sh = Inr ba" and bb: "jnp_broadcast_to b sh = Inr bb"
    and above: "list_ex (\<lambda>(m, M). val_gt m M) (zip (data ba) (data bb))"
  shows "BoundedArray_init J g sh dl mn mx nm = Inl (ValueError (Minimum_above_maximum a b) None)"
proof -
  from a b have wf: "wf_array a" "wf_array b" by (auto dest: jnp_asarray_dtype_Inr)
  from ba bb have bc: "broadcastable (shape a) sh" "broadcastable (shape b) sh"
    and ba': "ba = \<lparr>shape = sh, dtype = dtype a, data = bcast a sh\<rparr>"
    and bb': "bb = \<lparr>shape = sh, dtype = dtype b, data = bcast b sh\<rparr>"
    by (simp_all add: jnp_broadcast_to_Inr)
  have len: "length (bcast a sh) = prod_list sh" "length (bcast b sh) = prod_list sh"
    using bc wf by (simp_all add: length_bcast)
  have wfb: "wf_array ba" "wf_array bb" "shape bb = shape ba"
    by (simp_all add: ba' bb' wf_array_def len)
  have "jnp_greater ba bb = Inr \<lparr>shape = shape ba, dtype = Bool,
      data = map2 (\<lambda>x y. val_of_bool (val_gt x y)) (data ba) (bcast bb (shape ba))\<rparr>"
    unfolding jnp_greater_def
    by (rule binary_op_bcast) (simp_all add: wfb broadcastable_refl)
  moreover have "bcast bb (shape ba) = data bb"
    using bcast_same [OF wfb(2)] by (simp add: wfb)
  ultimately obtain gt where gt: "jnp_greater ba bb = Inr gt"
    and d: "data gt = map2 (\<lambda>x y. val_of_bool (val_gt x y)) (data ba) (data bb)"
    by simp
  have "jnp_any gt = (\<exists>(x, y) \<in> set (zip (data ba) (data bb)). val_gt x y)"
    by (simp only: jnp_any_def d list_ex_map2_bool)
  with above have "jnp_any gt" by (simp add: list_ex_iff)
  then show ?thesis
    by (simp add: BoundedArray_init_def Let_def and_then_def a b ba bb gt
        except_ValueError_def)
qed

text \<open>
  What the code checks. For a spec that the constructor returned and an array \<open>v\<close>,
  \<^verbatim>\<open>BoundedArray.validate\<close> returns \<open>v\<close> exactly when \<open>v\<close> conforms to the
  underlying Array spec and no element of \<open>v\<close> is less than its minimum or greater than
  its maximum, and raises ValueError otherwise; for a value and bounds without NaN that is
  \<^verbatim>\<open>minimum <= value <= maximum\<close>, a value equal to a bound passing. When the bounds
  are converted and broadcast, the constructor raises ValueError if an element of the
  broadcast minimum is greater than the element of the broadcast maximum at its place.
\<close>

lemma BoundedArray_validate_bounds:
  "(BoundedArray_init J get_valid_dtype sh dl mn mx nm = Inr self \<and> wf_array v \<longrightarrow>
      (\<forall>r. (BoundedArray_validate self v = Inr r) =
            (r = jnp_asarray v \<and> Array_validate self v = Inr r \<and> within_bounds self r))
      \<and> ((\<exists>m n. BoundedArray_validate self v = Inl (ValueError m n)) =
            (\<not> (Array_validate self v = Inr (jnp_asarray v) \<and> within_bounds self (jnp_asarray v)))))
   \<and> (NaN \<notin> set (data v) \<and> NaN \<notin> set (bcast (minimum self) (spec_shape self))
        \<and> NaN \<notin> set (bcast (maximum self) (spec_shape self)) \<longrightarrow>
      within_bounds self v = claimed_within_bounds self v)
   \<and> (jnp_asarray_dtype J mn dl = Inr a \<and> jnp_asarray_dtype J mx dl = Inr b
        \<and> jnp_broadcast_to a sh = Inr ba \<and> jnp_broadcast_to b sh = Inr bb
        \<and> list_ex (\<lambda>(m, M). val_gt m M) (zip (data ba) (data bb)) \<longrightarrow>
      BoundedArray_init J get_valid_dtype sh dl mn mx nm =
        Inl (ValueError (Minimum_above_maximum a b) None))"
proof (intro conjI impI allI)
  fix r
  assume h: "BoundedArray_init J get_valid_dtype sh dl mn mx nm = Inr self \<and> wf_array v"
  then have sh: "spec_shape self = sh" by (auto dest: BoundedArray_init_Inr)
  show "(BoundedArray_validate self v = Inr r) =
        (r = jnp_asarray v \<and> Array_validate self v = Inr r \<and> within_bounds self r)"
  proof (cases "shape v = sh")
    case True
    have "BoundedArray_validate self v =
      (if dtype v \<noteq> spec_dtype self
       then fail_validation self (Expected_dtype (spec_dtype self) (dtype v))
       else if within_bounds self v then Inr v
       else fail_validation self (Not_within_bounds (minimum self) v (maximum self)))"
      using h True
      by (intro BoundedArray_validate_constructed
          [of J get_valid_dtype sh dl mn mx nm self v]) simp_all
    then show ?thesis
      by (auto simp: Array_validate_Inr jnp_asarray_def fail_validation_def sh True)
  next
    case False
    then show ?thesis
      by (simp add: BoundedArray_validate_wrong_shape sh Array_validate_Inr
          fail_validation_def)
  qed
next
  assume h: "BoundedArray_init J get_valid_dtype sh dl mn mx nm = Inr self \<and> wf_array v"
  then have sh: "spec_shape self = sh" by (auto dest: BoundedArray_init_Inr)
  show "(\<exists>m n. BoundedArray_validate self v = Inl (ValueError m n)) =
        (\<not> (Array_validate self v = Inr (jnp_asarray v) \<and> within_bounds self (jnp_asarray v)))"
  proof (cases "shape v = sh")
    case True
    have "BoundedArray_validate self v =
      (if dtype v \<noteq> spec_dtype self
       then fail_validation self (Expected_dtype (spec_dtype self) (dtype v))
       else if within_bounds self v then Inr v
       else fail_validation self (Not_within_bounds (minimum self) v (maximum self)))"
      using h True
      by (intro BoundedArray_validate_constructed
          [of J get_valid_dtype sh dl mn mx nm self v]) simp_all
    then show ?thesis
      by (auto simp: Array_validate_Inr jnp_asarray_def fail_validation_def sh True)
  next
    case False
    then show ?thesis
      by (simp add: BoundedArray_validate_wrong_shape sh Array_validate_Inr
          fail_validation_def jnp_asarray_def)
  qed
next
  assume "NaN \<notin> set (data v) \<and> NaN \<notin> set (bcast (minimum self) (spec_shape self))
        \<and> NaN \<notin> set (bcast (maximum self) (spec_shape self))"
  then show "within_bounds self v = claimed_within_bounds self v"
    by (simp add: within_bounds_claimed)
next
  assume "jnp_asarray_dtype J mn dl = Inr a \<and> jnp_asarray_dtype J mx dl = Inr b
        \<and> jnp_broadcast_to a sh = Inr ba \<and> jnp_broadcast_to b sh = Inr bb
        \<and> list_ex (\<lambda>(m, M). val_gt m M) (zip (data ba) (data bb))"
  then show "BoundedArray_init J get_valid_dtype sh dl mn mx nm =
        Inl (ValueError (Minimum_above_maximum a b) None)"
    by (simp add: BoundedArray_init_above)
qed

lemma unit_interval_init:
  "BoundedArray_init jax_example (\<lambda>d. d) [] Float32 (scalar (Num 0)) (scalar (Num 1)) []
     = Inr unit_interval"
  by (simp add: BoundedArray_init_def Let_def and_then_def jnp_asarray_dtype_def scalar_def
      jax_example_def astype_example_def int_range_def except_ValueError_def jnp_broadcast_to_def broadcastable_def
      pad_shape_def bcast_def jnp_greater_def binary_op_def broadcast_shapes_def
      common_dim_def jnp_any_def val_of_bool_def val_gt_def truthy_def Array_init_def
      Array.defs BoundedArray.defs unit_interval_def)

text \<open>
  C2. A \<^verbatim>\<open>BoundedArray\<close> is to accept a value exactly when the value conforms to the
  underlying Array spec and \<^verbatim>\<open>minimum <= value <= maximum\<close> holds of every element,
  the bounds included. The code does not: the spec of the unit interval, which the
  constructor returns for the bounds 0 and 1, accepts NaN, and \<^verbatim>\<open>0 <= NaN <= 1\<close>
  does not hold.
\<close>

theorem BoundedArray_validate_accepts_NaN:
  "BoundedArray_init jax_example (\<lambda>d. d) [] Float32 (scalar (Num 0)) (scalar (Num 1)) []
     = Inr unit_interval
   \<and> BoundedArray_validate unit_interval \<lparr>shape = [], dtype = Float32, data = [NaN]\<rparr>
     = Inr \<lparr>shape = [], dtype = Float32, data = [NaN]\<rparr>
   \<and> \<not> claimed_within_bounds unit_interval \<lparr>shape = [], dtype = Float32, data = [NaN]\<rparr>"
proof -
  have "BoundedArray_validate unit_interval \<lparr>shape = [], dtype = Float32, data = [NaN]\<rparr>
     = Inr \<lparr>shape = [], dtype = Float32, data = [NaN]\<rparr>"
    by (simp add: BoundedArray_validate_def Array_validate_def jnp_asarray_def Let_def
        and_then_def jnp_less_def jnp_greater_def binary_op_def broadcast_shapes_def
        pad_shape_def bcast_def jnp_any_def val_of_bool_def val_gt_def truthy_def
        unit_interval_def)
  moreover have
    "\<not> claimed_within_bounds unit_interval \<lparr>shape = [], dtype = Float32, data = [NaN]\<rparr>"
    by (simp add: claimed_within_bounds_def unit_interval_def bcast_def pad_shape_def)
  ultimately show ?thesis using unit_interval_init by simp
qed

lemma BoundedArray_validate_bounds_example:
  "BoundedArray_validate unit_interval \<lparr>shape = [], dtype = Float32, data = [Num 1]\<rparr>
     = Inr \<lparr>shape = [], dtype = Float32, data = [Num 1]\<rparr>
   \<and> (\<exists>m n. BoundedArray_validate unit_interval \<lparr>shape = [], dtype = Float32, data = [Num 2]\<rparr>
        = Inl (ValueError m n))
   \<and> claimed_within_bounds unit_interval \<lparr>shape = [], dtype = Float32, data = [Num 1]\<rparr>
   \<and> BoundedArray_init jax_example (\<lambda>d. d) [2] Float32 (scalar (Num 2))
        \<lparr>dims = [2], elems = [Num 3, Num 1]\<rparr> []
      = Inl (ValueError (Minimum_above_maximum
          \<lparr>shape = [], dtype = Float32, data = [Num 2]\<rparr>
          \<lparr>shape = [2], dtype = Float32, data = [Num 3, Num 1]\<rparr>) None)"
proof -
  let ?one = "\<lparr>shape = [], dtype = Float32, data = [Num 1]\<rparr>"
  let ?two = "\<lparr>shape = [], dtype = Float32, data = [Num 2]\<rparr>"
  let ?a = "\<lparr>shape = [], dtype = Float32, data = [Num 2]\<rparr>"
  let ?b = "\<lparr>shape = [2], dtype = Float32, data = [Num 3, Num 1]\<rparr>"
  have bounds: "bcast (minimum unit_interval) (spec_shape unit_interval) = [Num 0]"
    "bcast (maximum unit_interval) (spec_shape unit_interval) = [Num 1]"
    by (simp_all add: unit_interval_def bcast_def pad_shape_def)
  have wf: "wf_array ?one" "wf_array ?two" by (simp_all add: wf_array_def)
  have conf: "Array_validate unit_interval ?one = Inr ?one"
    "Array_validate unit_interval ?two = Inr ?two"
    by (simp_all add: Array_validate_Inr unit_interval_def)
  have inside: "within_bounds unit_interval ?one" "\<not> within_bounds unit_interval ?two"
    by (simp_all add: within_bounds_def bounds val_gt_def)
  have nonan: "NaN \<notin> set (data ?one)" by simp
  have conv: "jnp_asarray_dtype jax_example (scalar (Num 2)) Float32 = Inr ?a"
    "jnp_asarray_dtype jax_example \<lparr>dims = [2], elems = [Num 3, Num 1]\<rparr> Float32 = Inr ?b"
    by (simp_all add: jnp_asarray_dtype_def jax_example_def astype_example_def int_range_def
        and_then_def scalar_def)
  have bc: "jnp_broadcast_to ?a [2] = Inr \<lparr>shape = [2], dtype = Float32, data = [Num 2, Num 2]\<rparr>"
    "jnp_broadcast_to ?b [2] = Inr ?b"
    by (simp_all add: jnp_broadcast_to_def broadcastable_def pad_shape_def bcast_def
        chunks_def upt_rec eval_nat_numeral)
  have above: "list_ex (\<lambda>(m, M). val_gt m M)
      (zip (data \<lparr>shape = [2], dtype = Float32, data = [Num 2, Num 2]\<rparr>) (data ?b))"
    by (simp add: val_gt_def)
  note one = BoundedArray_validate_bounds [of jax_example "\<lambda>d. d" "[]" Float32
      "scalar (Num 0)" "scalar (Num 1)" "[]" unit_interval ?one]
  note two = BoundedArray_validate_bounds [of jax_example "\<lambda>d. d" "[]" Float32
      "scalar (Num 0)" "scalar (Num 1)" "[]" unit_interval ?two]
  note three = BoundedArray_validate_bounds [of jax_example "\<lambda>d. d" "[2]" Float32
      "scalar (Num 2)" "\<lparr>dims = [2], elems = [Num 3, Num 1]\<rparr>" "[]" unit_interval ?one ?a ?b
      "\<lparr>shape = [2], dtype = Float32, data = [Num 2, Num 2]\<rparr>" ?b]
  have v1: "BoundedArray_validate unit_interval ?one = Inr ?one"
    using one unit_interval_init wf(1) conf(1) inside(1) by (simp add: jnp_asarray_def)
  have v2: "\<exists>m n. BoundedArray_validate unit_interval ?two = Inl (ValueError m n)"
    using two unit_interval_init wf(2) inside(2) by (simp add: jnp_asarray_def)
  have c1: "claimed_within_bounds unit_interval ?one"
    using one nonan bounds inside(1) by simp
  have i3: "BoundedArray_init jax_example (\<lambda>d. d) [2] Float32 (scalar (Num 2))
        \<lparr>dims = [2], elems = [Num 3, Num 1]\<rparr> []
      = Inl (ValueError (Minimum_above_maximum ?a ?b) None)"
    using three conv bc above by (simp add: val_gt_def)
  from v1 v2 c1 i3 show ?thesis by simp
qed

subsection \<open>Conversion to \<^verbatim>\<open>dm_env\<close> specs\<close>

text \<open>
  C9. \<^verbatim>\<open>jumanji_specs_to_dm_env_specs\<close> raises ValueError exactly when its argument is
  not an instance of \<^verbatim>\<open>Array\<close>, that is for every nested spec, and returns a
  \<^verbatim>\<open>dm_env\<close> spec otherwise: for a \<^verbatim>\<open>DiscreteArray\<close> (which is also an instance of
  \<^verbatim>\<open>BoundedArray\<close> and of \<^verbatim>\<open>Array\<close>) the \<^verbatim>\<open>dm_env\<close> DiscreteArray with its
  num_values and dtype, for a \<^verbatim>\<open>BoundedArray\<close> the \<^verbatim>\<open>dm_env\<close> BoundedArray with its
  shape, dtype and bounds, for an \<^verbatim>\<open>Array\<close> the \<^verbatim>\<open>dm_env\<close> Array with its shape and
  dtype; an empty name becomes None, another name is kept.
\<close>

theorem jumanji_specs_to_dm_env_specs_classes:
  "((\<exists>m n. jumanji_specs_to_dm_env_specs spec = Inl (ValueError m n)) = (\<not> isinstance_Array spec))
   \<and> ((\<exists>d. jumanji_specs_to_dm_env_specs spec = Inr d) = isinstance_Array spec)
   \<and> (\<forall>ob. \<exists>m n. jumanji_specs_to_dm_env_specs (NestedSpec ob) = Inl (ValueError m n))
   \<and> isinstance_BoundedArray (ArraySpec (IsDiscreteArray ds))
   \<and> isinstance_Array (ArraySpec (IsDiscreteArray ds))
   \<and> jumanji_specs_to_dm_env_specs (ArraySpec (IsDiscreteArray ds)) =
        Inr (dm_env_DiscreteArray (num_values ds) (spec_dtype ds)
               (if spec_name ds = [] then None else Some (spec_name ds)))
   \<and> isinstance_Array (ArraySpec (IsBoundedArray bs))
   \<and> jumanji_specs_to_dm_env_specs (ArraySpec (IsBoundedArray bs)) =
        Inr (dm_env_BoundedArray (spec_shape bs) (spec_dtype bs) (minimum bs) (maximum bs)
               (if spec_name bs = [] then None else Some (spec_name bs)))
   \<and> jumanji_specs_to_dm_env_specs (ArraySpec (IsArray s)) =
        Inr (dm_env_Array (spec_shape s) (spec_dtype s)
               (if spec_name s = [] then None else Some (spec_name s)))"
proof -
  have raises: "(\<exists>m n. jumanji_specs_to_dm_env_specs spec = Inl (ValueError m n))
      = (\<not> isinstance_Array spec)"
  proof (cases spec)
    case (ArraySpec a)
    then show ?thesis by (cases a) simp_all
  next
    case (NestedSpec ob)
    then show ?thesis by simp
  qed
  have returns: "(\<exists>d. jumanji_specs_to_dm_env_specs spec = Inr d) = isinstance_Array spec"
  proof (cases spec)
    case (ArraySpec a)
    then show ?thesis by (cases a) simp_all
  next
    case (NestedSpec ob)
    then show ?thesis by simp
  qed
  from raises returns show ?thesis by (simp add: name_or_None_def)
qed

subsection \<open>Generated values\<close>

lemma map2_mul_ones: "length ys = n \<Longrightarrow> map2 val_mul (replicate n (Num 1)) ys = ys"
  by (induction ys arbitrary: n) (auto simp: val_mul_one)

lemma BoundedArray_generated_conforms:
  fixes self :: "'m BoundedArray_scheme"
  assumes wfm: "wf_array (minimum self)" "wf_array (maximum self)"
    and bcm: "broadcastable (shape (minimum self)) (spec_shape self)"
      "broadcastable (shape (maximum self)) (spec_shape self)"
    and dt: "dtype (minimum self) = spec_dtype self"
    and le: "list_all2 (\<lambda>m M. \<not> val_gt m M) (bcast (minimum self) (spec_shape self))
               (bcast (maximum self) (spec_shape self))"
  shows "\<exists>v. BoundedArray_generate_value J self = Inr v \<and> BoundedArray_validate self v = Inr v
    \<and> wf_array v \<and> shape v = spec_shape self \<and> dtype v = spec_dtype self
    \<and> data v = bcast (minimum self) (spec_shape self)"
proof -
  let ?sh = "spec_shape self"
  let ?v = "\<lparr>shape = ?sh, dtype = spec_dtype self, data = bcast (minimum self) ?sh\<rparr>"
  have len: "length (bcast (minimum self) ?sh) = prod_list ?sh"
    using bcm(1) wfm(1) by (rule length_bcast)
  have "BoundedArray_generate_value J self =
      Inr \<lparr>shape = shape (jnp_ones ?sh (spec_dtype self)),
           dtype = (\<lambda>d e. if d = e then d else promote_types J d e)
                     (dtype (jnp_ones ?sh (spec_dtype self))) (dtype (minimum self)),
           data = map2 val_mul (data (jnp_ones ?sh (spec_dtype self)))
                    (bcast (minimum self) (shape (jnp_ones ?sh (spec_dtype self))))\<rparr>"
    unfolding BoundedArray_generate_value_def jnp_multiply_def
    by (rule binary_op_bcast) (simp_all add: bcm wf_array_def jnp_ones_def)
  then have gen: "BoundedArray_generate_value J self = Inr ?v"
    by (simp add: jnp_ones_def dt map2_mul_ones len)
  have wfv: "wf_array ?v" by (simp add: wf_array_def len)
  have inside: "within_bounds self ?v"
    using le by (simp add: within_bounds_def list_all2_same val_lt_irrefl)
  have "BoundedArray_validate self ?v = Inr ?v"
    using BoundedArray_validate_consistent [OF wfm bcm wfv] inside by simp
  with gen wfv show ?thesis by simp
qed

lemma BoundedArray_init_consistent:
  assumes "BoundedArray_init J g sh dl mn mx nm = Inr s" and "g dl = array_dtype J dl"
  shows "wf_array (minimum s) \<and> wf_array (maximum s)
    \<and> broadcastable (shape (minimum s)) (spec_shape s)
    \<and> broadcastable (shape (maximum s)) (spec_shape s)
    \<and> dtype (minimum s) = spec_dtype s
    \<and> list_all2 (\<lambda>m M. \<not> val_gt m M) (bcast (minimum s) (spec_shape s))
         (bcast (maximum s) (spec_shape s))"
  using BoundedArray_init_Inr [OF assms(1)] assms(2)
  by (auto dest: jnp_asarray_dtype_Inr)

lemma DiscreteArray_init_Inr:
  assumes "DiscreteArray_init J g n dl nm = Inr s"
  shows "\<exists>super. BoundedArray_init J g [] dl (scalar (Num 0)) (scalar (Num (of_int (n - 1)))) nm
           = Inr super
    \<and> spec_name s = spec_name super \<and> spec_shape s = spec_shape super
    \<and> spec_dtype s = spec_dtype super \<and> minimum s = minimum super
    \<and> maximum s = maximum super \<and> num_values s = n \<and> 0 < n \<and> issubdtype_integer J dl"
  using assms
  by (auto simp: DiscreteArray_init_def Let_def and_then_Inr BoundedArray.defs
      DiscreteArray.defs split: if_splits)

text \<open>
  C6. The value that a spec generates conforms to the spec. For an object that a
  constructor of \<^verbatim>\<open>Array\<close>, \<^verbatim>\<open>BoundedArray\<close> or \<^verbatim>\<open>DiscreteArray\<close> returned,
  \<^verbatim>\<open>generate_value()\<close> returns an array of the shape and the dtype of the spec, with
  as many elements as the shape says (zeros for an \<^verbatim>\<open>Array\<close>, the minimum at each
  place for a \<^verbatim>\<open>BoundedArray\<close>), and \<^verbatim>\<open>validate\<close> returns that same array. For
  the observation spec of Connect4 built from two such objects, \<^verbatim>\<open>generate_value()\<close>
  returns the observation made of the values that its two specs generate, and
  \<^verbatim>\<open>validate\<close> returns that same observation. \<^verbatim>\<open>get_valid_dtype\<close> is taken to give
  the dtype that JAX gives an array created with the requested dtype.
\<close>

theorem generate_value_validates:
  assumes "\<forall>dl. get_valid_dtype dl = array_dtype J dl"
  shows "(constructed J get_valid_dtype a \<longrightarrow>
            (\<exists>v. generate_value J a = Inr v \<and> validate a v = Inr v
                \<and> wf_array v \<and> shape v = obj_shape a \<and> dtype v = obj_dtype a
                \<and> data v = generated_elements a))
    \<and> (constructed J get_valid_dtype (board_obs ob)
        \<and> constructed J get_valid_dtype (action_mask_spec ob) \<longrightarrow>
            (\<exists>v. ObservationSpec_generate_value J ob = Inr v
                \<and> ObservationSpec_validate ob v = Inr v
                \<and> generate_value J (board_obs ob) = Inr (board v)
                \<and> generate_value J (action_mask_spec ob) = Inr (action_mask v)
                \<and> wf_array (board v) \<and> wf_array (action_mask v)
                \<and> shape (board v) = obj_shape (board_obs ob)
                \<and> shape (action_mask v) = obj_shape (action_mask_spec ob)))"
proof -
  have arr: "\<exists>v. generate_value J a = Inr v \<and> validate a v = Inr v
      \<and> wf_array v \<and> shape v = obj_shape a \<and> dtype v = obj_dtype a
      \<and> data v = generated_elements a"
    if "constructed J get_valid_dtype a" for a
    using that
  proof cases
    case (Array sh dl nm)
    then show ?thesis
      by (simp add: Array_generate_value_def Array_validate_Inr jnp_zeros_def Array_init_def
          wf_array_def)
  next
    case (BoundedArray sh dl mn mx nm s)
    have c: "wf_array (minimum s) \<and> wf_array (maximum s)
      \<and> broadcastable (shape (minimum s)) (spec_shape s)
      \<and> broadcastable (shape (maximum s)) (spec_shape s)
      \<and> dtype (minimum s) = spec_dtype s
      \<and> list_all2 (\<lambda>m M. \<not> val_gt m M) (bcast (minimum s) (spec_shape s))
           (bcast (maximum s) (spec_shape s))"
      by (rule BoundedArray_init_consistent [OF BoundedArray(2)]) (simp add: assms)
    then have "\<exists>v. BoundedArray_generate_value J s = Inr v \<and> BoundedArray_validate s v = Inr v
      \<and> wf_array v \<and> shape v = spec_shape s \<and> dtype v = spec_dtype s
      \<and> data v = bcast (minimum s) (spec_shape s)"
      by (intro BoundedArray_generated_conforms) simp_all
    with BoundedArray(1) show ?thesis by simp
  next
    case (DiscreteArray n dl nm s)
    from DiscreteArray_init_Inr [OF DiscreteArray(2)] obtain super where
      super: "BoundedArray_init J get_valid_dtype [] dl (scalar (Num 0))
                (scalar (Num (of_int (n - 1)))) nm = Inr super"
      and eq: "spec_shape s = spec_shape super" "spec_dtype s = spec_dtype super"
        "minimum s = minimum super" "maximum s = maximum super"
      by blast
    have "wf_array (minimum super) \<and> wf_array (maximum super)
      \<and> broadcastable (shape (minimum super)) (spec_shape super)
      \<and> broadcastable (shape (maximum super)) (spec_shape super)
      \<and> dtype (minimum super) = spec_dtype super
      \<and> list_all2 (\<lambda>m M. \<not> val_gt m M) (bcast (minimum super) (spec_shape super))
           (bcast (maximum super) (spec_shape super))"
      by (rule BoundedArray_init_consistent [OF super]) (simp add: assms)
    then have "\<exists>v. BoundedArray_generate_value J s = Inr v \<and> BoundedArray_validate s v = Inr v
      \<and> wf_array v \<and> shape v = spec_shape s \<and> dtype v = spec_dtype s
      \<and> data v = bcast (minimum s) (spec_shape s)"
      by (intro BoundedArray_generated_conforms) (simp_all add: eq)
    with DiscreteArray(1) show ?thesis by simp
  qed
  have obs: "\<exists>v. ObservationSpec_generate_value J ob = Inr v
                \<and> ObservationSpec_validate ob v = Inr v
                \<and> generate_value J (board_obs ob) = Inr (board v)
                \<and> generate_value J (action_mask_spec ob) = Inr (action_mask v)
                \<and> wf_array (board v) \<and> wf_array (action_mask v)
                \<and> shape (board v) = obj_shape (board_obs ob)
                \<and> shape (action_mask v) = obj_shape (action_mask_spec ob)"
    if b: "constructed J get_valid_dtype (board_obs ob)"
      and m: "constructed J get_valid_dtype (action_mask_spec ob)"
  proof -
    from arr [OF b] obtain vb where vb: "generate_value J (board_obs ob) = Inr vb"
      "validate (board_obs ob) vb = Inr vb" "wf_array vb" "shape vb = obj_shape (board_obs ob)"
      by blast
    from arr [OF m] obtain vm where vm: "generate_value J (action_mask_spec ob) = Inr vm"
      "validate (action_mask_spec ob) vm = Inr vm" "wf_array vm"
      "shape vm = obj_shape (action_mask_spec ob)" by blast
    show ?thesis
      by (simp add: ObservationSpec_generate_value_def ObservationSpec_validate_def
          and_then_def vb vm)
  qed
  from arr obs show ?thesis by blast
qed

lemma action_mask_example_init:
  "BoundedArray_init jax_example (\<lambda>d. d) [7] Bool (scalar (Num 0)) (scalar (Num 1))
     ''action_mask'' = Inr action_mask_example"
  by (simp add: BoundedArray_init_def Let_def and_then_def jnp_asarray_dtype_def scalar_def
      jax_example_def astype_example_def int_range_def except_ValueError_def jnp_broadcast_to_def broadcastable_def
      pad_shape_def bcast_def jnp_greater_def binary_op_def broadcast_shapes_def
      common_dim_def jnp_any_def val_of_bool_def val_gt_def truthy_def Array_init_def
      Array.defs BoundedArray.defs action_mask_example_def chunks_def upt_rec
      eval_nat_numeral)

theorem generate_value_validates_witness:
  "(\<exists>v. generate_value jax_example (IsBoundedArray unit_interval) = Inr v
        \<and> validate (IsBoundedArray unit_interval) v = Inr v
        \<and> wf_array v \<and> shape v = [] \<and> dtype v = Float32 \<and> data v = [Num 0])
   \<and> (\<exists>v. ObservationSpec_generate_value jax_example connect4_example = Inr v
        \<and> ObservationSpec_validate connect4_example v = Inr v
        \<and> wf_array (board v) \<and> wf_array (action_mask v)
        \<and> shape (board v) = [6, 7] \<and> shape (action_mask v) = [7])"
proof -
  have g: "\<forall>dl. (\<lambda>d. d) dl = array_dtype jax_example dl"
    by (simp add: jax_example_def)
  have a: "constructed jax_example (\<lambda>d. d) (IsBoundedArray unit_interval)"
    using unit_interval_init by (rule constructed.BoundedArray)
  have b: "constructed jax_example (\<lambda>d. d) (board_obs connect4_example)"
    by (simp add: connect4_example_def ObservationSpec_init_def constructed.Array)
  have m: "constructed jax_example (\<lambda>d. d) (action_mask_spec connect4_example)"
    using action_mask_example_init
    by (simp add: connect4_example_def ObservationSpec_init_def constructed.BoundedArray)
  have e: "obj_shape (IsBoundedArray unit_interval) = []"
    "obj_dtype (IsBoundedArray unit_interval) = Float32"
    "generated_elements (IsBoundedArray unit_interval) = [Num 0]"
    "obj_shape (board_obs connect4_example) = [6, 7]"
    "obj_shape (action_mask_spec connect4_example) = [7]"
    by (simp_all add: unit_interval_def bcast_def pad_shape_def connect4_example_def
        ObservationSpec_init_def Array_init_def action_mask_example_def)
  from generate_value_validates [OF g, of "IsBoundedArray unit_interval" connect4_example] a b m
  show ?thesis unfolding e by blast
qed

subsection \<open>The base wrapper\<close>

lemma nesting_not_Nil: "nesting env \<noteq> []"
  by (cases env) simp_all

lemma unwrapped_last_nesting: "unwrapped env = last (nesting env)"
  by (induction env) (simp_all add: nesting_not_Nil)

lemma unwrapped_funpow: "unwrapped ((Wrapper ^^ n) env) = unwrapped env"
  by (induction n) simp_all

text \<open>
  C10. The base \<^verbatim>\<open>Wrapper\<close> returns what the environment it wraps returns:
  \<^verbatim>\<open>reset\<close>, \<^verbatim>\<open>step\<close>, \<^verbatim>\<open>observation_spec\<close> and \<^verbatim>\<open>action_spec\<close> are those of
  the wrapped environment, and \<^verbatim>\<open>unwrapped\<close> is that of the wrapped environment:
  under any nesting of wrappers it is the innermost environment, the last of the nesting,
  which is not a wrapper.
\<close>

theorem Wrapper_transparent:
  "reset (Wrapper env) k = reset env k
   \<and> step (Wrapper env) state action = step env state action
   \<and> observation_spec (Wrapper env) = observation_spec env
   \<and> action_spec (Wrapper env) = action_spec env
   \<and> unwrapped (Wrapper env) = unwrapped env
   \<and> unwrapped ((Wrapper ^^ n) env) = unwrapped env
   \<and> unwrapped ((Wrapper ^^ n) (Env r s os as)) = Env r s os as
   \<and> unwrapped env = last (nesting env)
   \<and> (\<exists>r s os as. unwrapped env = Env r s os as)"
proof -
  have base: "\<exists>r s os as. unwrapped env = Env r s os as"
    by (induction env) simp_all
  show ?thesis
    using base by (simp add: unwrapped_funpow unwrapped_last_nesting [symmetric])
qed

subsection \<open>Automatic reset\<close>




subsection \<open>Aggregation of a multi-agent time step\<close>











subsection \<open>The Connector environment\<close>

lemma get_action_mask_eq:
  "get_action_mask U agent g =
     \<lparr>shape = [5], dtype = Bool,
      data = [Num 1,
              val_of_bool (is_valid_position U g agent (move U (position agent) 1)),
              val_of_bool (is_valid_position U g agent (move U (position agent) 2)),
              val_of_bool (is_valid_position U g agent (move U (position agent) 3)),
              val_of_bool (is_valid_position U g agent (move U (position agent) 4))]\<rparr>"
  by (simp add: get_action_mask_def Let_def jnp_arange_def jnp_ones_def jax_vmap_def at_set_def
      upt_rec eval_nat_numeral)

text \<open>
  C7. The action mask of an agent is an array of five booleans. Its entry 0, the no-op,
  is true, and its entry \<open>i\<close>, for \<open>i\<close> from 1 to 4, is true exactly when
  \<^verbatim>\<open>is_valid_position\<close> holds, on the grid and for the agent, of the position that
  \<^verbatim>\<open>move\<close> gives from the position of the agent and the action \<open>i\<close>.
\<close>

theorem get_action_mask_entries:
  "shape (get_action_mask U agent g) = [5]
   \<and> dtype (get_action_mask U agent g) = Bool
   \<and> length (data (get_action_mask U agent g)) = 5
   \<and> data (get_action_mask U agent g) ! 0 = val_of_bool True
   \<and> data (get_action_mask U agent g) ! 1 =
       val_of_bool (is_valid_position U g agent (move U (position agent) 1))
   \<and> data (get_action_mask U agent g) ! 2 =
       val_of_bool (is_valid_position U g agent (move U (position agent) 2))
   \<and> data (get_action_mask U agent g) ! 3 =
       val_of_bool (is_valid_position U g agent (move U (position agent) 3))
   \<and> data (get_action_mask U agent g) ! 4 =
       val_of_bool (is_valid_position U g agent (move U (position agent) 4))
   \<and> truthy (data (get_action_mask U agent g) ! 0)
   \<and> truthy (data (get_action_mask U agent g) ! 1) =
       is_valid_position U g agent (move U (position agent) 1)
   \<and> truthy (data (get_action_mask U agent g) ! 2) =
       is_valid_position U g agent (move U (position agent) 2)
   \<and> truthy (data (get_action_mask U agent g) ! 3) =
       is_valid_position U g agent (move U (position agent) 3)
   \<and> truthy (data (get_action_mask U agent g) ! 4) =
       is_valid_position U g agent (move U (position agent) 4)"
  unfolding get_action_mask_eq
  by (simp add: val_of_bool_def truthy_def eval_nat_numeral)

text \<open>
  C3. \<^verbatim>\<open>Connector.step\<close> returns \<^verbatim>\<open>None\<close> for every state and every action: it
  returns no pair of a state and a time step.
\<close>

theorem Connector_step_returns_None:
  "Connector_step self state action = None
   \<and> (\<forall>next_state timestep. Connector_step self state action \<noteq> Some (next_state, timestep))"
  by (simp add: Connector_step_def)

end
